theory Spec2Isabelle
  imports Main "HOL-Library.Word" "HOL-Library.Multiset"
begin

section \<open>Go library functions used by the sources\<close>

text \<open>
  Go strings are byte sequences; \<^typ>\<open>string\<close> is a list of 8-bit characters.
  \<open>strconv.Itoa\<close> and the verb \<open>%d\<close> of \<open>fmt.Sprintf\<close> print a signed integer in
  decimal, with a leading minus sign for a negative one.
\<close>

definition digitChar :: "nat \<Rightarrow> char" where
  "digitChar d = ''0123456789'' ! (d mod 10)"

fun formatUint :: "nat \<Rightarrow> string" where
  "formatUint n =
     (if n < 10 then [digitChar n] else formatUint (n div 10) @ [digitChar (n mod 10)])"

declare formatUint.simps [simp del]

definition Itoa :: "int \<Rightarrow> string" where
  "Itoa i = (if i < 0 then CHR ''-'' # formatUint (nat (- i)) else formatUint (nat i))"

text \<open>
  \<open>strings.Trim(s, cutset)\<close> removes every leading and every trailing byte of \<open>s\<close> that
  occurs in \<open>cutset\<close> (the cutsets used here are ASCII).
\<close>

definition Trim :: "string \<Rightarrow> string \<Rightarrow> string" where
  "Trim s cutset =
     rev (dropWhile (\<lambda>c. c \<in> set cutset) (rev (dropWhile (\<lambda>c. c \<in> set cutset) s)))"

text \<open>\<open>strings.Join(elems, sep)\<close>, the reference for a separator-joined list.\<close>

fun Join :: "string list \<Rightarrow> string \<Rightarrow> string" where
  "Join [] sep = []"
| "Join [x] sep = x"
| "Join (x # y # ys) sep = x @ sep @ Join (y # ys) sep"

text \<open>\<open>strings.HasPrefix\<close> and \<open>strings.HasSuffix\<close>.\<close>

definition HasPrefix :: "string \<Rightarrow> string \<Rightarrow> bool" where
  "HasPrefix s p = (take (length p) s = p)"

definition HasSuffix :: "string \<Rightarrow> string \<Rightarrow> bool" where
  "HasSuffix s p = (length p \<le> length s \<and> drop (length s - length p) s = p)"

text \<open>
  \<open>utils.TypeDeref(val, defaultVal)\<close> and \<open>pointer.Int32Deref\<close>: the pointee of a
  non-nil pointer, the default for a nil one. A pointer is an \<^typ>\<open>'a option\<close>.
\<close>

definition TypeDeref :: "'a option \<Rightarrow> 'a \<Rightarrow> 'a" where
  "TypeDeref val defaultVal = (case val of Some v \<Rightarrow> v | None \<Rightarrow> defaultVal)"

text \<open>
  A run-time panic of Go is an error value. \<open>s[:n]\<close> on a string panics when \<open>n\<close>
  exceeds \<open>len(s)\<close>; \<open>utilruntime.Must\<close> panics on a non-nil error.
\<close>

datatype error =
    SliceBoundsOutOfRange nat nat
  | FeatureGateClosed
  | FeatureGateConflict string

definition sliceTo :: "string \<Rightarrow> nat \<Rightarrow> error + string" where
  "sliceTo s n = (if n \<le> length s then Inr (take n s) else Inl (SliceBoundsOutOfRange n (length s)))"

section \<open>The Etcd resource, as far as the sources read it\<close>

record ObjectMeta =
  meta_Name :: string
  Namespace :: string
  UID :: string

text \<open>
  \<open>resource.Quantity\<close> is read only through \<open>Value()\<close>, an \<open>int64\<close>; a quantity is
  represented by that value.
\<close>

datatype Quantity = Quantity (Value: "64 word")

record SecretSpec =
  DataKey :: "string option"

record TLSConfig =
  TLSCASecretRef :: SecretSpec

text \<open>One entry of a member-URL override list: a member name with its URLs.\<close>

record MemberURLs =
  member_Name :: string
  URLs :: "string list"

text \<open>
  A nil slice is \<^term>\<open>None\<close>, a non-nil one (also an empty one) is \<^term>\<open>Some xs\<close>:
  the sources test the override lists against nil.
\<close>

record EtcdConfig =
  Quota :: "Quantity option"
  spec_Metrics :: "string option"
  ServerPort :: "32 word option"
  ClientPort :: "32 word option"
  ClientUrlTLS :: "TLSConfig option"
  PeerUrlTLS :: "TLSConfig option"
  spec_InitialCluster :: "MemberURLs list option"
  PeerURLs :: "MemberURLs list option"
  ClientURLs :: "MemberURLs list option"

record SharedConfig =
  spec_AutoCompactionMode :: "string option"
  spec_AutoCompactionRetention :: "string option"

record EtcdSpec =
  Replicas :: "32 word"
  Etcd :: EtcdConfig
  Common :: SharedConfig

record EtcdMemberStatus =
  member_Status :: string

record EtcdStatus =
  Members :: "EtcdMemberStatus list"

record Etcd =
  ObjectMeta :: ObjectMeta
  Spec :: EtcdSpec
  Status :: EtcdStatus

text \<open>
  Constants and helpers of the packages \<open>internal/common\<close> and \<open>api/v1alpha1\<close> that
  the sources use and that are declared elsewhere: the mount paths, the default ports,
  the default metrics level and compaction mode, and the two naming helpers. They are
  parameters of the model.
\<close>

record Externals =
  VolumeMountPathEtcdData :: string
  VolumeMountPathEtcdCA :: string
  VolumeMountPathEtcdServerTLS :: string
  VolumeMountPathEtcdPeerCA :: string
  VolumeMountPathEtcdPeerServerTLS :: string
  DefaultPortEtcdPeer :: "32 word"
  DefaultPortEtcdClient :: "32 word"
  Basic :: string
  Periodic :: string
  GetPeerServiceName :: "ObjectMeta \<Rightarrow> string"
  GetOrdinalPodName :: "ObjectMeta \<Rightarrow> int \<Rightarrow> string"

section \<open>internal/component/configmap/etcdconfig.go\<close>

definition defaultDBQuotaBytes :: "64 word" where
  "defaultDBQuotaBytes = 8 * 1024 * 1024 * 1024"

definition defaultAutoCompactionRetention :: string where
  "defaultAutoCompactionRetention = ''30m''"

definition defaultInitialClusterToken :: string where
  "defaultInitialClusterToken = ''etcd-cluster''"

definition defaultInitialClusterState :: string where
  "defaultInitialClusterState = ''new''"

definition defaultSnapshotCount :: int where
  "defaultSnapshotCount = 75000"

definition defaultDataDir :: "Externals \<Rightarrow> string" where
  "defaultDataDir ext = VolumeMountPathEtcdData ext @ ''/new.etcd''"

record securityConfig =
  CertFile :: string
  KeyFile :: string
  ClientCertAuth :: bool
  TrustedCAFile :: string
  AutoTLS :: bool

text \<open>
  The zero value of the struct: what a \<open>securityConfig\<close> field of \<open>etcdConfig\<close> holds
  when nothing is assigned to it, and what the tag \<open>omitempty\<close> leaves out.
\<close>

definition zeroSecurityConfig :: securityConfig where
  "zeroSecurityConfig =
     \<lparr>CertFile = [], KeyFile = [], ClientCertAuth = False, TrustedCAFile = [], AutoTLS = False\<rparr>"

record etcdConfig =
  Name :: string
  DataDir :: string
  Metrics :: string
  SnapshotCount :: int
  EnableV2 :: bool
  QuotaBackendBytes :: "64 word"
  InitialClusterToken :: string
  InitialClusterState :: string
  InitialCluster :: string
  AutoCompactionMode :: string
  AutoCompactionRetention :: string
  ListenPeerUrls :: string
  ListenClientUrls :: string
  AdvertisePeerUrls :: string
  AdvertiseClientUrls :: string
  ClientSecurity :: securityConfig
  PeerSecurity :: securityConfig

definition getDBQuotaBytes :: "Etcd \<Rightarrow> 64 word" where
  "getDBQuotaBytes etcd =
     (case Quota (Etcd (Spec etcd)) of
        Some q \<Rightarrow> Value q
      | None \<Rightarrow> defaultDBQuotaBytes)"

definition getSchemeAndSecurityConfig ::
  "TLSConfig option \<Rightarrow> string \<Rightarrow> string \<Rightarrow> string \<times> securityConfig option" where
  "getSchemeAndSecurityConfig tlsConfig caPath serverTLSPath =
     (case tlsConfig of
        Some t \<Rightarrow>
          (''https'',
           Some \<lparr>CertFile = serverTLSPath @ ''/tls.crt'',
                 KeyFile = serverTLSPath @ ''/tls.key'',
                 ClientCertAuth = True,
                 TrustedCAFile = caPath @ ''/'' @ TypeDeref (DataKey (TLSCASecretRef t)) ''ca.crt'',
                 AutoTLS = False\<rparr>)
      | None \<Rightarrow> (''http'', None))"

text \<open>
  The two nested \<open>range\<close> loops that write \<open>name=url,\<close> for every URL of every member
  to the builder; the builder is the string written so far.
\<close>

primrec writeURLs :: "string \<Rightarrow> string list \<Rightarrow> string \<Rightarrow> string" where
  "writeURLs name [] builder = builder"
| "writeURLs name (url # urls) builder = writeURLs name urls (builder @ name @ ''='' @ url @ '','')"

primrec writeMembers :: "MemberURLs list \<Rightarrow> string \<Rightarrow> string" where
  "writeMembers [] builder = builder"
| "writeMembers (member # members) builder =
     writeMembers members (writeURLs (member_Name member) (URLs member) builder)"

text \<open>
  The loop \<open>for i := 0; i < int(etcd.Spec.Replicas); i++\<close> of \<open>prepareInitialCluster\<close>;
  \<open>n\<close> is the bound, \<open>i\<close> the counter.
\<close>

function writeOrdinals ::
  "Externals \<Rightarrow> Etcd \<Rightarrow> string \<Rightarrow> string \<Rightarrow> string \<Rightarrow> int \<Rightarrow> int \<Rightarrow> string \<Rightarrow> string" where
  "writeOrdinals ext etcd peerScheme domainName serverPort n i builder =
     (if i < n then
        (let podName = GetOrdinalPodName ext (ObjectMeta etcd) i in
         writeOrdinals ext etcd peerScheme domainName serverPort n (i + 1)
           (builder @ podName @ ''='' @ peerScheme @ ''://'' @ podName @ ''.'' @ domainName
              @ '':'' @ serverPort @ '',''))
      else builder)"
  by pat_completeness auto
termination
  by (relation "measure (\<lambda>(ext, etcd, peerScheme, domainName, serverPort, n, i, builder). nat (n - i))")
    auto

declare writeOrdinals.simps [simp del]

definition prepareInitialCluster :: "Externals \<Rightarrow> Etcd \<Rightarrow> string \<Rightarrow> string" where
  "prepareInitialCluster ext etcd peerScheme =
     (case spec_InitialCluster (Etcd (Spec etcd)) of
        Some members \<Rightarrow> Trim (writeMembers members []) '',''
      | None \<Rightarrow>
          (let domainName =
                 GetPeerServiceName ext (ObjectMeta etcd) @ ''.'' @ Namespace (ObjectMeta etcd)
                   @ ''.'' @ ''svc'';
               serverPort =
                 Itoa (sint (TypeDeref (ServerPort (Etcd (Spec etcd))) (DefaultPortEtcdPeer ext)))
           in Trim
                (writeOrdinals ext etcd peerScheme domainName serverPort
                   (sint (Replicas (Spec etcd))) 0 [])
                '',''))"

definition preparePeerURLs :: "Externals \<Rightarrow> Etcd \<Rightarrow> string \<Rightarrow> string \<Rightarrow> string" where
  "preparePeerURLs ext etcd peerScheme peerSvcName =
     (case PeerURLs (Etcd (Spec etcd)) of
        Some members \<Rightarrow> Trim (writeMembers members []) '',''
      | None \<Rightarrow>
          peerScheme @ ''@'' @ peerSvcName @ ''@'' @ Namespace (ObjectMeta etcd) @ ''@''
            @ Itoa (sint (TypeDeref (ServerPort (Etcd (Spec etcd))) (DefaultPortEtcdPeer ext))))"

definition prepareClientURLs :: "Externals \<Rightarrow> Etcd \<Rightarrow> string \<Rightarrow> string \<Rightarrow> string" where
  "prepareClientURLs ext etcd clientScheme peerSvcName =
     (case ClientURLs (Etcd (Spec etcd)) of
        Some members \<Rightarrow> Trim (writeMembers members []) '',''
      | None \<Rightarrow>
          clientScheme @ ''@'' @ peerSvcName @ ''@'' @ Namespace (ObjectMeta etcd) @ ''@''
            @ Itoa (sint (TypeDeref (ClientPort (Etcd (Spec etcd))) (DefaultPortEtcdClient ext))))"

text \<open>
  \<open>createEtcdConfig\<close>. The argument is the pointee of \<open>etcd\<close>. Every step but the slice
  \<open>etcd.UID[:6]\<close> returns; the slice panics on a UID shorter than six bytes, and then no
  configuration is returned.
\<close>

definition createEtcdConfig :: "Externals \<Rightarrow> Etcd \<Rightarrow> error + etcdConfig" where
  "createEtcdConfig ext etcd =
     (let (clientScheme, clientSecurityConfig) =
            getSchemeAndSecurityConfig (ClientUrlTLS (Etcd (Spec etcd)))
              (VolumeMountPathEtcdCA ext) (VolumeMountPathEtcdServerTLS ext);
          (peerScheme, peerSecurityConfig) =
            getSchemeAndSecurityConfig (PeerUrlTLS (Etcd (Spec etcd)))
              (VolumeMountPathEtcdPeerCA ext) (VolumeMountPathEtcdPeerServerTLS ext);
          peerSvcName = GetPeerServiceName ext (ObjectMeta etcd)
      in case sliceTo (UID (ObjectMeta etcd)) 6 of
           Inl e \<Rightarrow> Inl e
         | Inr uid6 \<Rightarrow>
             (let cfg =
                    \<lparr>Name = ''etcd-'' @ uid6,
                     DataDir = defaultDataDir ext,
                     Metrics = TypeDeref (spec_Metrics (Etcd (Spec etcd))) (Basic ext),
                     SnapshotCount = defaultSnapshotCount,
                     EnableV2 = False,
                     QuotaBackendBytes = getDBQuotaBytes etcd,
                     InitialClusterToken = defaultInitialClusterToken,
                     InitialClusterState = defaultInitialClusterState,
                     InitialCluster = prepareInitialCluster ext etcd peerScheme,
                     AutoCompactionMode =
                       TypeDeref (spec_AutoCompactionMode (Common (Spec etcd))) (Periodic ext),
                     AutoCompactionRetention =
                       TypeDeref (spec_AutoCompactionRetention (Common (Spec etcd)))
                         defaultAutoCompactionRetention,
                     ListenPeerUrls =
                       peerScheme @ ''://0.0.0.0:''
                         @ Itoa (sint (TypeDeref (ServerPort (Etcd (Spec etcd)))
                                        (DefaultPortEtcdPeer ext))),
                     ListenClientUrls =
                       clientScheme @ ''://0.0.0.0:''
                         @ Itoa (sint (TypeDeref (ClientPort (Etcd (Spec etcd)))
                                        (DefaultPortEtcdClient ext))),
                     AdvertisePeerUrls = preparePeerURLs ext etcd peerScheme peerSvcName,
                     AdvertiseClientUrls = prepareClientURLs ext etcd clientScheme peerSvcName,
                     ClientSecurity = zeroSecurityConfig,
                     PeerSecurity = zeroSecurityConfig\<rparr>;
                  cfg1 = (case peerSecurityConfig of
                            Some sc \<Rightarrow> cfg\<lparr>PeerSecurity := sc\<rparr>
                          | None \<Rightarrow> cfg);
                  cfg2 = (case clientSecurityConfig of
                            Some sc \<Rightarrow> cfg1\<lparr>ClientSecurity := sc\<rparr>
                          | None \<Rightarrow> cfg1)
              in Inr cfg2))"

section \<open>pkg/health/condition/check_all_members.go\<close>

text \<open>
  The condition vocabulary of \<open>api/v1alpha1\<close>: the three condition statuses, the
  condition type checked here, and the member status that counts as ready.
\<close>

datatype ConditionStatus = ConditionTrue | ConditionFalse | ConditionUnknown

definition ConditionTypeAllMembersReady :: string where
  "ConditionTypeAllMembersReady = ''AllMembersReady''"

definition EtcdMemberStatusReady :: string where
  "EtcdMemberStatusReady = ''Ready''"

record result =
  conType :: string
  status :: ConditionStatus
  reason :: string
  message :: string

text \<open>
  The loop over the members: the first member that is not ready sets the three fields
  of the result and returns it; a scan that finds none returns the result unchanged.
\<close>

primrec scanMembers :: "EtcdMemberStatus list \<Rightarrow> result \<Rightarrow> result" where
  "scanMembers [] res = res"
| "scanMembers (member # members) res =
     (if member_Status member \<noteq> EtcdMemberStatusReady then
        res\<lparr>status := ConditionFalse,
            reason := ''NotAllMembersReady'',
            message := ''At least one member is not ready''\<rparr>
      else scanMembers members res)"

definition Check :: "Etcd \<Rightarrow> result" where
  "Check etcd =
     (if length (Members (Status etcd)) = 0 then
        \<lparr>conType = ConditionTypeAllMembersReady,
         status = ConditionUnknown,
         reason = ''NoMembersInStatus'',
         message = ''Cannot determine readiness since status has no members''\<rparr>
      else
        scanMembers (Members (Status etcd))
          \<lparr>conType = ConditionTypeAllMembersReady,
           status = ConditionTrue,
           reason = ''AllMembersReady'',
           message = ''All members are ready''\<rparr>)"

section \<open>pkg/features/features.go\<close>

text \<open>
  The feature gate of \<open>k8s.io/component-base/featuregate\<close>, as far as registration
  goes: the table of known features and the flag that closes it. \<open>Add\<close> refuses a closed
  gate and a feature already known with a different spec, skips one known with the same
  spec, and stores the others.
\<close>

datatype prerelease = PreAlpha | Alpha | Beta | GA | Deprecated

record FeatureSpec =
  Default :: bool
  LockToDefault :: bool
  PreRelease :: prerelease

record featureGate =
  known :: "string \<rightharpoonup> FeatureSpec"
  closed :: bool

fun addKnown ::
  "(string \<rightharpoonup> FeatureSpec) \<Rightarrow> (string \<times> FeatureSpec) list \<Rightarrow> error + (string \<rightharpoonup> FeatureSpec)" where
  "addKnown kn [] = Inr kn"
| "addKnown kn ((name, spec) # features) =
     (case kn name of
        Some existingSpec \<Rightarrow>
          (if existingSpec = spec then addKnown kn features else Inl (FeatureGateConflict name))
      | None \<Rightarrow> addKnown (kn(name \<mapsto> spec)) features)"

definition Add :: "featureGate \<Rightarrow> (string \<times> FeatureSpec) list \<Rightarrow> error + featureGate" where
  "Add f features =
     (if closed f then Inl FeatureGateClosed
      else case addKnown (known f) features of
             Inl e \<Rightarrow> Inl e
           | Inr kn \<Rightarrow> Inr (f\<lparr>known := kn\<rparr>))"

definition NewFeatureGate :: featureGate where
  "NewFeatureGate =
     \<lparr>known = [''AllAlpha'' \<mapsto> \<lparr>Default = False, LockToDefault = False, PreRelease = Alpha\<rparr>,
               ''AllBeta'' \<mapsto> \<lparr>Default = False, LockToDefault = False, PreRelease = Beta\<rparr>],
      closed = False\<rparr>"

definition BackupCompaction :: string where
  "BackupCompaction = ''BackupCompaction''"

text \<open>The map literal \<open>featureGates\<close>, as the list of its entries.\<close>

definition featureGates :: "(string \<times> FeatureSpec) list" where
  "featureGates =
     [(BackupCompaction, \<lparr>Default = False, LockToDefault = False, PreRelease = Alpha\<rparr>)]"

text \<open>
  \<open>RegisterFeatureGates\<close> on the shared gate, passed and returned: \<open>utilruntime.Must\<close>
  panics with the error of \<open>Add\<close>.
\<close>

definition RegisterFeatureGates :: "featureGate \<Rightarrow> error + featureGate" where
  "RegisterFeatureGates FeatureGate = Add FeatureGate featureGates"

section \<open>The lists the builder is to produce\<close>

text \<open>
  The flattening of an override list the specification describes: one pair \<open>name=url\<close>
  for every URL of every member, in input order.
\<close>

definition flattenPairs :: "MemberURLs list \<Rightarrow> string list" where
  "flattenPairs members =
     concat (map (\<lambda>member. map (\<lambda>url. member_Name member @ ''='' @ url) (URLs member)) members)"

text \<open>
  A list of pairs whose comma-terminated concatenation loses exactly its last comma under
  \<open>strings.Trim\<close>: it is empty, or its first pair does not begin and its last pair does
  not end with a comma.
\<close>

definition commaSafe :: "string list \<Rightarrow> bool" where
  "commaSafe ps = (ps = [] \<or> (\<not> HasPrefix (hd ps) '','' \<and> \<not> HasSuffix (last ps) '',''))"

text \<open>
  The entry of ordinal \<open>i\<close> in a generated initial cluster:
  \<open><podName>=<peerScheme>://<podName>.<peerService>.<namespace>.svc:<serverPort>\<close>.
\<close>

definition ordinalEntry :: "Externals \<Rightarrow> Etcd \<Rightarrow> string \<Rightarrow> int \<Rightarrow> string" where
  "ordinalEntry ext etcd peerScheme i =
     GetOrdinalPodName ext (ObjectMeta etcd) i @ ''='' @ peerScheme @ ''://''
       @ GetOrdinalPodName ext (ObjectMeta etcd) i @ ''.''
       @ GetPeerServiceName ext (ObjectMeta etcd) @ ''.'' @ Namespace (ObjectMeta etcd) @ ''.svc:''
       @ Itoa (sint (TypeDeref (ServerPort (Etcd (Spec etcd))) (DefaultPortEtcdPeer ext)))"

section \<open>An instance of the external constants\<close>

text \<open>
  A concrete choice of the external constants and helpers, for evaluating the functions
  on examples: pods are named \<open><name>-<ordinal>\<close>, the peer service \<open><name>-peer\<close>.
\<close>

definition exampleExternals :: Externals where
  "exampleExternals =
     \<lparr>VolumeMountPathEtcdData = ''/var/etcd/data'',
      VolumeMountPathEtcdCA = ''/var/etcd/ssl/ca'',
      VolumeMountPathEtcdServerTLS = ''/var/etcd/ssl/server'',
      VolumeMountPathEtcdPeerCA = ''/var/etcd/ssl/peer/ca'',
      VolumeMountPathEtcdPeerServerTLS = ''/var/etcd/ssl/peer/server'',
      DefaultPortEtcdPeer = 2380,
      DefaultPortEtcdClient = 2379,
      Basic = ''basic'',
      Periodic = ''periodic'',
      GetPeerServiceName = (\<lambda>meta. meta_Name meta @ ''-peer''),
      GetOrdinalPodName = (\<lambda>meta i. meta_Name meta @ ''-'' @ Itoa i)\<rparr>"

definition exampleEtcd :: Etcd where
  "exampleEtcd =
     \<lparr>ObjectMeta =
        \<lparr>meta_Name = ''etcd-main'', Namespace = ''shoot--foo'',
         UID = ''a9b8c7d6-1234-4e5f-8a9b-0c1d2e3f4a5b''\<rparr>,
      Spec =
        \<lparr>Replicas = 3,
         Etcd =
           \<lparr>Quota = None, spec_Metrics = None, ServerPort = None, ClientPort = None,
            ClientUrlTLS = None, PeerUrlTLS = None, spec_InitialCluster = None,
            PeerURLs = None, ClientURLs = None\<rparr>,
         Common = \<lparr>spec_AutoCompactionMode = None, spec_AutoCompactionRetention = None\<rparr>\<rparr>,
      Status = \<lparr>Members = []\<rparr>\<rparr>"

definition tlsPeerEtcd :: Etcd where
  "tlsPeerEtcd =
     exampleEtcd\<lparr>Spec := (Spec exampleEtcd)\<lparr>Etcd := (Etcd (Spec exampleEtcd))
       \<lparr>PeerUrlTLS := Some \<lparr>TLSCASecretRef = \<lparr>DataKey = None\<rparr>\<rparr>\<rparr>\<rparr>\<rparr>"

text \<open>The example resource with members of the given statuses, in the given order.\<close>

definition statusOf :: "string list \<Rightarrow> Etcd" where
  "statusOf sts = exampleEtcd\<lparr>Status := \<lparr>Members = map (\<lambda>s. \<lparr>member_Status = s\<rparr>) sts\<rparr>\<rparr>"

text \<open>
  The example resource with another replica count, with a name that begins with a comma,
  with all three override lists, and with a given peer override list.
\<close>

definition replicasEtcd :: "32 word \<Rightarrow> Etcd" where
  "replicasEtcd r = exampleEtcd\<lparr>Spec := (Spec exampleEtcd)\<lparr>Replicas := r\<rparr>\<rparr>"

definition commaEtcd :: Etcd where
  "commaEtcd = exampleEtcd\<lparr>ObjectMeta := (ObjectMeta exampleEtcd)\<lparr>meta_Name := '',e''\<rparr>\<rparr>"

definition overrideEtcd :: Etcd where
  "overrideEtcd =
     exampleEtcd\<lparr>Spec := (Spec exampleEtcd)
       \<lparr>Replicas := 5,
        Etcd := (Etcd (Spec exampleEtcd))
          \<lparr>spec_InitialCluster :=
             Some [\<lparr>member_Name = ''etcd-0'', URLs = [''https://etcd-0.local:2380'', ''https://10.0.0.1:2380'']\<rparr>,
                   \<lparr>member_Name = ''etcd-1'', URLs = [''https://etcd-1.local:2380'']\<rparr>],
           PeerURLs := Some [\<lparr>member_Name = ''etcd-0'', URLs = [''https://etcd-0.local:2380'']\<rparr>],
           ClientURLs := Some [\<lparr>member_Name = ''etcd-0'', URLs = [''https://etcd-0.local:2379'']\<rparr>]\<rparr>\<rparr>\<rparr>"

definition peerOverrideEtcd :: "MemberURLs list \<Rightarrow> Etcd" where
  "peerOverrideEtcd members =
     exampleEtcd\<lparr>Spec := (Spec exampleEtcd)\<lparr>Etcd := (Etcd (Spec exampleEtcd))\<lparr>PeerURLs := Some members\<rparr>\<rparr>\<rparr>"

section \<open>What a synthesized configuration holds\<close>

text \<open>Synthesis returns exactly when the UID has at least six bytes.\<close>

lemma createEtcdConfig_returns:
  "6 \<le> length (UID (ObjectMeta etcd)) \<Longrightarrow> \<exists>cfg. createEtcdConfig ext etcd = Inr cfg"
  by (simp add: createEtcdConfig_def sliceTo_def Let_def split: prod.splits)

lemma createEtcdConfig_panics:
  "length (UID (ObjectMeta etcd)) < 6 \<Longrightarrow>
   createEtcdConfig ext etcd = Inl (SliceBoundsOutOfRange 6 (length (UID (ObjectMeta etcd))))"
  by (simp add: createEtcdConfig_def sliceTo_def Let_def split: prod.splits)

lemma createEtcdConfig_QuotaBackendBytes:
  "createEtcdConfig ext etcd = Inr cfg \<Longrightarrow> QuotaBackendBytes cfg = getDBQuotaBytes etcd"
  by (auto simp add: createEtcdConfig_def Let_def split: prod.splits sum.splits option.splits)

lemma createEtcdConfig_InitialCluster:
  "createEtcdConfig ext etcd = Inr cfg \<Longrightarrow>
   InitialCluster cfg =
     prepareInitialCluster ext etcd
       (fst (getSchemeAndSecurityConfig (PeerUrlTLS (Etcd (Spec etcd)))
          (VolumeMountPathEtcdPeerCA ext) (VolumeMountPathEtcdPeerServerTLS ext)))"
  by (auto simp add: createEtcdConfig_def Let_def split: prod.splits sum.splits option.splits)

lemma createEtcdConfig_ClientSecurity:
  "createEtcdConfig ext etcd = Inr cfg \<Longrightarrow>
   ClientSecurity cfg =
     (case snd (getSchemeAndSecurityConfig (ClientUrlTLS (Etcd (Spec etcd)))
                  (VolumeMountPathEtcdCA ext) (VolumeMountPathEtcdServerTLS ext)) of
        Some sc \<Rightarrow> sc | None \<Rightarrow> zeroSecurityConfig)"
  by (auto simp add: createEtcdConfig_def Let_def split: prod.splits sum.splits option.splits)

lemma createEtcdConfig_PeerSecurity:
  "createEtcdConfig ext etcd = Inr cfg \<Longrightarrow>
   PeerSecurity cfg =
     (case snd (getSchemeAndSecurityConfig (PeerUrlTLS (Etcd (Spec etcd)))
                  (VolumeMountPathEtcdPeerCA ext) (VolumeMountPathEtcdPeerServerTLS ext)) of
        Some sc \<Rightarrow> sc | None \<Rightarrow> zeroSecurityConfig)"
  by (auto simp add: createEtcdConfig_def Let_def split: prod.splits sum.splits option.splits)

lemma createEtcdConfig_ListenClientUrls:
  "createEtcdConfig ext etcd = Inr cfg \<Longrightarrow>
   ListenClientUrls cfg =
     fst (getSchemeAndSecurityConfig (ClientUrlTLS (Etcd (Spec etcd)))
            (VolumeMountPathEtcdCA ext) (VolumeMountPathEtcdServerTLS ext))
       @ ''://0.0.0.0:''
       @ Itoa (sint (TypeDeref (ClientPort (Etcd (Spec etcd))) (DefaultPortEtcdClient ext)))"
  by (auto simp add: createEtcdConfig_def Let_def split: prod.splits sum.splits option.splits)

lemma createEtcdConfig_ListenPeerUrls:
  "createEtcdConfig ext etcd = Inr cfg \<Longrightarrow>
   ListenPeerUrls cfg =
     fst (getSchemeAndSecurityConfig (PeerUrlTLS (Etcd (Spec etcd)))
            (VolumeMountPathEtcdPeerCA ext) (VolumeMountPathEtcdPeerServerTLS ext))
       @ ''://0.0.0.0:''
       @ Itoa (sint (TypeDeref (ServerPort (Etcd (Spec etcd))) (DefaultPortEtcdPeer ext)))"
  by (auto simp add: createEtcdConfig_def Let_def split: prod.splits sum.splits option.splits)

section \<open>What synthesis reads, and totality\<close>

lemma writeOrdinals_meta:
  "ObjectMeta e1 = ObjectMeta e2 \<Longrightarrow>
   writeOrdinals ext e1 sch dn port n i b = writeOrdinals ext e2 sch dn port n i b"
proof (induction ext e1 sch dn port n i b rule: writeOrdinals.induct)
  case (1 ext etcd peerScheme domainName serverPort n i builder)
  show ?case
  proof (cases "i < n")
    case True
    with 1 show ?thesis
      by (simp add: writeOrdinals.simps [of _ _ _ _ _ n i] Let_def)
  next
    case False
    then show ?thesis
      by (simp add: writeOrdinals.simps [of _ _ _ _ _ n i])
  qed
qed

lemma prepareInitialCluster_meta_spec:
  "ObjectMeta e1 = ObjectMeta e2 \<Longrightarrow> Spec e1 = Spec e2 \<Longrightarrow>
   prepareInitialCluster ext e1 sch = prepareInitialCluster ext e2 sch"
  by (simp add: prepareInitialCluster_def Let_def writeOrdinals_meta [of e1 e2] split: option.splits)

text \<open>
  Synthesis reads the metadata and the spec of the resource and nothing else of it: two
  resources that agree on both, whatever their status, have the same outcome, the same
  configuration or the same panic.
\<close>

lemma createEtcdConfig_reads_meta_and_spec:
  "ObjectMeta e1 = ObjectMeta e2 \<Longrightarrow> Spec e1 = Spec e2 \<Longrightarrow>
   createEtcdConfig ext e1 = createEtcdConfig ext e2"
proof -
  assume m: "ObjectMeta e1 = ObjectMeta e2" and s: "Spec e1 = Spec e2"
  have q: "getDBQuotaBytes e1 = getDBQuotaBytes e2"
    by (simp add: getDBQuotaBytes_def s cong: option.case_cong)
  have i: "\<And>sch. prepareInitialCluster ext e1 sch = prepareInitialCluster ext e2 sch"
    by (rule prepareInitialCluster_meta_spec [OF m s])
  have p: "\<And>sch svc. preparePeerURLs ext e1 sch svc = preparePeerURLs ext e2 sch svc"
    by (simp add: preparePeerURLs_def m s cong: option.case_cong)
  have c: "\<And>sch svc. prepareClientURLs ext e1 sch svc = prepareClientURLs ext e2 sch svc"
    by (simp add: prepareClientURLs_def m s cong: option.case_cong)
  show ?thesis
    by (simp add: createEtcdConfig_def m s q i p c
        cong: option.case_cong prod.case_cong sum.case_cong)
qed

text \<open>
  C2. Configuration synthesis is not total: on a resource whose UID is empty the slice
  \<open>etcd.UID[:6]\<close> panics and no configuration is returned.
\<close>

theorem createEtcdConfig_panics_on_short_UID:
  "createEtcdConfig exampleExternals (exampleEtcd\<lparr>ObjectMeta := (ObjectMeta exampleEtcd)\<lparr>UID := ''''\<rparr>\<rparr>)
     = Inl (SliceBoundsOutOfRange 6 0)"
  by (simp add: createEtcdConfig_def sliceTo_def Let_def split: prod.splits)

section \<open>Quota\<close>

text \<open>
  C4. Quota precedence and default: without a quota the quota bytes are
  \<open>8 * 1024^3 = 8589934592\<close> (also as a signed 64-bit value); with a quota they are the
  value of that quota; and the field \<open>QuotaBackendBytes\<close> of a synthesized
  configuration holds exactly these bytes.
\<close>

theorem quota_precedence_and_default:
  "(Quota (Etcd (Spec etcd)) = None \<longrightarrow>
      getDBQuotaBytes etcd = 8589934592 \<and> sint (getDBQuotaBytes etcd) = 8 * 1024 ^ 3)
   \<and> (\<forall>q. Quota (Etcd (Spec etcd)) = Some q \<longrightarrow> getDBQuotaBytes etcd = Value q)
   \<and> (\<forall>cfg. createEtcdConfig ext etcd = Inr cfg \<longrightarrow> QuotaBackendBytes cfg = getDBQuotaBytes etcd)"
  by (simp add: getDBQuotaBytes_def defaultDBQuotaBytes_def createEtcdConfig_QuotaBackendBytes)


theorem quota_precedence_and_default_witness:
  "getDBQuotaBytes exampleEtcd = 8589934592
   \<and> getDBQuotaBytes (exampleEtcd\<lparr>Spec := (Spec exampleEtcd)\<lparr>Etcd := (Etcd (Spec exampleEtcd))\<lparr>Quota := Some (Quantity 1000)\<rparr>\<rparr>\<rparr>) = 1000
   \<and> (\<exists>cfg. createEtcdConfig exampleExternals exampleEtcd = Inr cfg
          \<and> QuotaBackendBytes cfg = 8589934592)"
proof -
  obtain cfg where c: "createEtcdConfig exampleExternals exampleEtcd = Inr cfg"
    using createEtcdConfig_returns [of exampleEtcd exampleExternals]
    by (auto simp add: exampleEtcd_def)
  have n: "Quota (Etcd (Spec exampleEtcd)) = None"
    by (simp add: exampleEtcd_def)
  have s: "Quota (Etcd (Spec (exampleEtcd\<lparr>Spec := (Spec exampleEtcd)\<lparr>Etcd := (Etcd (Spec exampleEtcd))\<lparr>Quota := Some (Quantity 1000)\<rparr>\<rparr>\<rparr>)))
      = Some (Quantity 1000)"
    by simp
  show ?thesis
    using quota_precedence_and_default [of exampleEtcd exampleExternals]
      quota_precedence_and_default
        [of "exampleEtcd\<lparr>Spec := (Spec exampleEtcd)\<lparr>Etcd := (Etcd (Spec exampleEtcd))\<lparr>Quota := Some (Quantity 1000)\<rparr>\<rparr>\<rparr>"
          exampleExternals]
      n s c
    by simp
qed

section \<open>TLS duality\<close>

lemma getSchemeAndSecurityConfig_None:
  "getSchemeAndSecurityConfig None caPath serverTLSPath = (''http'', None)"
  by (simp add: getSchemeAndSecurityConfig_def)

lemma getSchemeAndSecurityConfig_Some:
  "getSchemeAndSecurityConfig (Some t) caPath serverTLSPath =
     (''https'',
      Some \<lparr>CertFile = serverTLSPath @ ''/tls.crt'', KeyFile = serverTLSPath @ ''/tls.key'',
            ClientCertAuth = True,
            TrustedCAFile =
              caPath @ ''/'' @ (case DataKey (TLSCASecretRef t) of Some k \<Rightarrow> k | None \<Rightarrow> ''ca.crt''),
            AutoTLS = False\<rparr>)"
  by (simp add: getSchemeAndSecurityConfig_def TypeDeref_def)

text \<open>
  C3. TLS duality, per target. \<open>getSchemeAndSecurityConfig\<close> answers \<open>http\<close> and no
  security configuration for a nil TLS configuration, and \<open>https\<close> with the certificate
  \<open><serverTLSPath>/tls.crt\<close>, the key \<open><serverTLSPath>/tls.key\<close>, client-cert-auth true
  and the trusted CA file \<open><caPath>/<dataKey>\<close> (data key \<open>ca.crt\<close> when unset) for a
  non-nil one. In a synthesized configuration the client block and the scheme of the
  client listen URL follow the client TLS configuration alone, the peer block and the
  scheme of the peer listen URL the peer TLS configuration alone; without TLS the block
  stays the zero value (which \<open>omitempty\<close> leaves out), with TLS it is not the zero value.
\<close>

theorem tls_duality:
  "(tlsConfig = None \<longrightarrow>
      getSchemeAndSecurityConfig tlsConfig caPath serverTLSPath = (''http'', None))
   \<and> (\<forall>t. tlsConfig = Some t \<longrightarrow>
        getSchemeAndSecurityConfig tlsConfig caPath serverTLSPath =
          (''https'',
           Some \<lparr>CertFile = serverTLSPath @ ''/tls.crt'', KeyFile = serverTLSPath @ ''/tls.key'',
                 ClientCertAuth = True,
                 TrustedCAFile =
                   caPath @ ''/''
                     @ (case DataKey (TLSCASecretRef t) of Some k \<Rightarrow> k | None \<Rightarrow> ''ca.crt''),
                 AutoTLS = False\<rparr>))
   \<and> (\<forall>cfg. createEtcdConfig ext etcd = Inr cfg \<longrightarrow>
        (case ClientUrlTLS (Etcd (Spec etcd)) of
           None \<Rightarrow>
             ClientSecurity cfg = zeroSecurityConfig
             \<and> ListenClientUrls cfg =
                 ''http://0.0.0.0:''
                   @ Itoa (sint (TypeDeref (ClientPort (Etcd (Spec etcd))) (DefaultPortEtcdClient ext)))
         | Some t \<Rightarrow>
             ClientSecurity cfg =
               \<lparr>CertFile = VolumeMountPathEtcdServerTLS ext @ ''/tls.crt'',
                KeyFile = VolumeMountPathEtcdServerTLS ext @ ''/tls.key'',
                ClientCertAuth = True,
                TrustedCAFile =
                  VolumeMountPathEtcdCA ext @ ''/''
                    @ (case DataKey (TLSCASecretRef t) of Some k \<Rightarrow> k | None \<Rightarrow> ''ca.crt''),
                AutoTLS = False\<rparr>
             \<and> ClientSecurity cfg \<noteq> zeroSecurityConfig
             \<and> ListenClientUrls cfg =
                 ''https://0.0.0.0:''
                   @ Itoa (sint (TypeDeref (ClientPort (Etcd (Spec etcd))) (DefaultPortEtcdClient ext))))
        \<and> (case PeerUrlTLS (Etcd (Spec etcd)) of
             None \<Rightarrow>
               PeerSecurity cfg = zeroSecurityConfig
               \<and> ListenPeerUrls cfg =
                   ''http://0.0.0.0:''
                     @ Itoa (sint (TypeDeref (ServerPort (Etcd (Spec etcd))) (DefaultPortEtcdPeer ext)))
           | Some t \<Rightarrow>
               PeerSecurity cfg =
                 \<lparr>CertFile = VolumeMountPathEtcdPeerServerTLS ext @ ''/tls.crt'',
                  KeyFile = VolumeMountPathEtcdPeerServerTLS ext @ ''/tls.key'',
                  ClientCertAuth = True,
                  TrustedCAFile =
                    VolumeMountPathEtcdPeerCA ext @ ''/''
                      @ (case DataKey (TLSCASecretRef t) of Some k \<Rightarrow> k | None \<Rightarrow> ''ca.crt''),
                  AutoTLS = False\<rparr>
               \<and> PeerSecurity cfg \<noteq> zeroSecurityConfig
               \<and> ListenPeerUrls cfg =
                   ''https://0.0.0.0:''
                     @ Itoa (sint (TypeDeref (ServerPort (Etcd (Spec etcd))) (DefaultPortEtcdPeer ext)))))"
proof (intro conjI allI impI)
  fix cfg
  assume c: "createEtcdConfig ext etcd = Inr cfg"
  show "case ClientUrlTLS (Etcd (Spec etcd)) of
           None \<Rightarrow>
             ClientSecurity cfg = zeroSecurityConfig
             \<and> ListenClientUrls cfg =
                 ''http://0.0.0.0:''
                   @ Itoa (sint (TypeDeref (ClientPort (Etcd (Spec etcd))) (DefaultPortEtcdClient ext)))
         | Some t \<Rightarrow>
             ClientSecurity cfg =
               \<lparr>CertFile = VolumeMountPathEtcdServerTLS ext @ ''/tls.crt'',
                KeyFile = VolumeMountPathEtcdServerTLS ext @ ''/tls.key'',
                ClientCertAuth = True,
                TrustedCAFile =
                  VolumeMountPathEtcdCA ext @ ''/''
                    @ (case DataKey (TLSCASecretRef t) of Some k \<Rightarrow> k | None \<Rightarrow> ''ca.crt''),
                AutoTLS = False\<rparr>
             \<and> ClientSecurity cfg \<noteq> zeroSecurityConfig
             \<and> ListenClientUrls cfg =
                 ''https://0.0.0.0:''
                   @ Itoa (sint (TypeDeref (ClientPort (Etcd (Spec etcd))) (DefaultPortEtcdClient ext)))"
    by (simp add: createEtcdConfig_ClientSecurity [OF c] createEtcdConfig_ListenClientUrls [OF c]
        getSchemeAndSecurityConfig_None getSchemeAndSecurityConfig_Some zeroSecurityConfig_def
        split: option.splits)
  show "case PeerUrlTLS (Etcd (Spec etcd)) of
             None \<Rightarrow>
               PeerSecurity cfg = zeroSecurityConfig
               \<and> ListenPeerUrls cfg =
                   ''http://0.0.0.0:''
                     @ Itoa (sint (TypeDeref (ServerPort (Etcd (Spec etcd))) (DefaultPortEtcdPeer ext)))
           | Some t \<Rightarrow>
               PeerSecurity cfg =
                 \<lparr>CertFile = VolumeMountPathEtcdPeerServerTLS ext @ ''/tls.crt'',
                  KeyFile = VolumeMountPathEtcdPeerServerTLS ext @ ''/tls.key'',
                  ClientCertAuth = True,
                  TrustedCAFile =
                    VolumeMountPathEtcdPeerCA ext @ ''/''
                      @ (case DataKey (TLSCASecretRef t) of Some k \<Rightarrow> k | None \<Rightarrow> ''ca.crt''),
                  AutoTLS = False\<rparr>
               \<and> PeerSecurity cfg \<noteq> zeroSecurityConfig
               \<and> ListenPeerUrls cfg =
                   ''https://0.0.0.0:''
                     @ Itoa (sint (TypeDeref (ServerPort (Etcd (Spec etcd))) (DefaultPortEtcdPeer ext)))"
    by (simp add: createEtcdConfig_PeerSecurity [OF c] createEtcdConfig_ListenPeerUrls [OF c]
        getSchemeAndSecurityConfig_None getSchemeAndSecurityConfig_Some zeroSecurityConfig_def
        split: option.splits)
qed (simp_all add: getSchemeAndSecurityConfig_None getSchemeAndSecurityConfig_Some)

lemma Itoa_2379: "Itoa 2379 = ''2379''"
  by (simp add: Itoa_def formatUint.simps digitChar_def)

lemma Itoa_2380: "Itoa 2380 = ''2380''"
  by (simp add: Itoa_def formatUint.simps digitChar_def)

theorem tls_duality_witness:
  "getSchemeAndSecurityConfig (Some \<lparr>TLSCASecretRef = \<lparr>DataKey = Some ''bundle.crt''\<rparr>\<rparr>)
       ''/var/etcd/ssl/ca'' ''/var/etcd/ssl/server''
     = (''https'',
        Some \<lparr>CertFile = ''/var/etcd/ssl/server/tls.crt'', KeyFile = ''/var/etcd/ssl/server/tls.key'',
              ClientCertAuth = True, TrustedCAFile = ''/var/etcd/ssl/ca/bundle.crt'',
              AutoTLS = False\<rparr>)
   \<and> (\<exists>cfg. createEtcdConfig exampleExternals tlsPeerEtcd = Inr cfg
          \<and> ClientSecurity cfg = zeroSecurityConfig
          \<and> ListenClientUrls cfg = ''http://0.0.0.0:2379''
          \<and> PeerSecurity cfg =
              \<lparr>CertFile = ''/var/etcd/ssl/peer/server/tls.crt'',
               KeyFile = ''/var/etcd/ssl/peer/server/tls.key'',
               ClientCertAuth = True, TrustedCAFile = ''/var/etcd/ssl/peer/ca/ca.crt'',
               AutoTLS = False\<rparr>
          \<and> ListenPeerUrls cfg = ''https://0.0.0.0:2380'')"
proof -
  obtain cfg where c: "createEtcdConfig exampleExternals tlsPeerEtcd = Inr cfg"
    using createEtcdConfig_returns [of tlsPeerEtcd exampleExternals]
    by (auto simp add: tlsPeerEtcd_def exampleEtcd_def)
  have p: "PeerUrlTLS (Etcd (Spec tlsPeerEtcd)) = Some \<lparr>TLSCASecretRef = \<lparr>DataKey = None\<rparr>\<rparr>"
    and q: "ClientUrlTLS (Etcd (Spec tlsPeerEtcd)) = None"
    and r: "ServerPort (Etcd (Spec tlsPeerEtcd)) = None" "ClientPort (Etcd (Spec tlsPeerEtcd)) = None"
    by (simp_all add: tlsPeerEtcd_def exampleEtcd_def)
  have e: "DefaultPortEtcdPeer exampleExternals = 2380" "DefaultPortEtcdClient exampleExternals = 2379"
    "VolumeMountPathEtcdPeerCA exampleExternals = ''/var/etcd/ssl/peer/ca''"
    "VolumeMountPathEtcdPeerServerTLS exampleExternals = ''/var/etcd/ssl/peer/server''"
    by (simp_all add: exampleExternals_def)
  show ?thesis
    using tls_duality
        [of "Some \<lparr>TLSCASecretRef = \<lparr>DataKey = Some ''bundle.crt''\<rparr>\<rparr>"
          "''/var/etcd/ssl/ca''" "''/var/etcd/ssl/server''" exampleExternals tlsPeerEtcd]
      c
    by (simp add: p q r e TypeDeref_def Itoa_2379 Itoa_2380)
qed

section \<open>The AllMembersReady check\<close>

lemma scanMembers_all_ready:
  "\<forall>m \<in> set ms. member_Status m = EtcdMemberStatusReady \<Longrightarrow> scanMembers ms res = res"
  by (induction ms) simp_all

lemma scanMembers_some_not_ready:
  "\<exists>m \<in> set ms. member_Status m \<noteq> EtcdMemberStatusReady \<Longrightarrow>
   scanMembers ms res =
     res\<lparr>status := ConditionFalse, reason := ''NotAllMembersReady'',
         message := ''At least one member is not ready''\<rparr>"
  by (induction ms) auto

lemma Check_cases:
  "Check etcd =
     (if Members (Status etcd) = [] then
        \<lparr>conType = ConditionTypeAllMembersReady, status = ConditionUnknown,
         reason = ''NoMembersInStatus'',
         message = ''Cannot determine readiness since status has no members''\<rparr>
      else if \<exists>m \<in> set (Members (Status etcd)). member_Status m \<noteq> EtcdMemberStatusReady then
        \<lparr>conType = ConditionTypeAllMembersReady, status = ConditionFalse,
         reason = ''NotAllMembersReady'', message = ''At least one member is not ready''\<rparr>
      else
        \<lparr>conType = ConditionTypeAllMembersReady, status = ConditionTrue,
         reason = ''AllMembersReady'', message = ''All members are ready''\<rparr>)"
proof (cases "Members (Status etcd) = []")
  case True
  then show ?thesis by (simp add: Check_def)
next
  case False
  show ?thesis
  proof (cases "\<exists>m \<in> set (Members (Status etcd)). member_Status m \<noteq> EtcdMemberStatusReady")
    case True
    with False show ?thesis
      by (simp add: Check_def scanMembers_some_not_ready [OF True])
  next
    case no: False
    then have "\<forall>m \<in> set (Members (Status etcd)). member_Status m = EtcdMemberStatusReady"
      by blast
    with False no show ?thesis
      by (simp add: Check_def scanMembers_all_ready)
  qed
qed

text \<open>
  C7. The check answers with a condition of type \<open>AllMembersReady\<close> whose status is
  Unknown for an empty member list, False for a non-empty list with a member whose status
  is not \<open>Ready\<close>, and True for a non-empty list of ready members; Unknown is the answer
  for the empty list only.
\<close>

theorem Check_tri_state:
  "conType (Check etcd) = ''AllMembersReady''
   \<and> (Members (Status etcd) = [] \<longrightarrow> status (Check etcd) = ConditionUnknown)
   \<and> (Members (Status etcd) \<noteq> []
        \<and> (\<exists>m \<in> set (Members (Status etcd)). member_Status m \<noteq> EtcdMemberStatusReady)
      \<longrightarrow> status (Check etcd) = ConditionFalse)
   \<and> (Members (Status etcd) \<noteq> []
        \<and> (\<forall>m \<in> set (Members (Status etcd)). member_Status m = EtcdMemberStatusReady)
      \<longrightarrow> status (Check etcd) = ConditionTrue)
   \<and> (status (Check etcd) = ConditionUnknown \<longleftrightarrow> Members (Status etcd) = [])"
  by (simp add: Check_cases ConditionTypeAllMembersReady_def)

theorem Check_tri_state_witness:
  "status (Check (statusOf [])) = ConditionUnknown
   \<and> status (Check (statusOf [''Ready'', ''NotReady'', ''Ready''])) = ConditionFalse
   \<and> status (Check (statusOf [''Ready'', ''Ready'', ''Ready''])) = ConditionTrue
   \<and> conType (Check (statusOf [''Ready'', ''NotReady'', ''Ready''])) = ''AllMembersReady''"
  using Check_tri_state [of "statusOf []"]
    Check_tri_state [of "statusOf [''Ready'', ''NotReady'', ''Ready'']"]
    Check_tri_state [of "statusOf [''Ready'', ''Ready'', ''Ready'']"]
  by (simp add: statusOf_def EtcdMemberStatusReady_def)

text \<open>
  C8. The check does not depend on the order of the members: two statuses whose member
  lists are permutations of each other get the same condition (type, status, reason and
  message), and so do any two statuses that agree on whether the list is empty and on
  whether some member is not ready.
\<close>

theorem Check_order_independent:
  "(mset (Members (Status e1)) = mset (Members (Status e2)) \<longrightarrow> Check e1 = Check e2)
   \<and> ((Members (Status e1) = [] \<longleftrightarrow> Members (Status e2) = [])
        \<and> ((\<exists>m \<in> set (Members (Status e1)). member_Status m \<noteq> EtcdMemberStatusReady)
             \<longleftrightarrow> (\<exists>m \<in> set (Members (Status e2)). member_Status m \<noteq> EtcdMemberStatusReady))
      \<longrightarrow> Check e1 = Check e2)"
proof (intro conjI impI)
  assume p: "mset (Members (Status e1)) = mset (Members (Status e2))"
  then have s: "set (Members (Status e1)) = set (Members (Status e2))"
    by (rule mset_eq_setD)
  from p have "Members (Status e1) = [] \<longleftrightarrow> Members (Status e2) = []"
    by (metis mset_zero_iff)
  with s show "Check e1 = Check e2"
    by (simp add: Check_cases)
next
  assume "(Members (Status e1) = [] \<longleftrightarrow> Members (Status e2) = [])
        \<and> ((\<exists>m \<in> set (Members (Status e1)). member_Status m \<noteq> EtcdMemberStatusReady)
             \<longleftrightarrow> (\<exists>m \<in> set (Members (Status e2)). member_Status m \<noteq> EtcdMemberStatusReady))"
  then show "Check e1 = Check e2"
    by (simp add: Check_cases)
qed

theorem Check_order_independent_witness:
  "mset (Members (Status (statusOf [''Ready'', ''NotReady'', ''Ready''])))
     = mset (Members (Status (statusOf [''NotReady'', ''Ready'', ''Ready''])))
   \<and> Members (Status (statusOf [''Ready'', ''NotReady'', ''Ready'']))
       \<noteq> Members (Status (statusOf [''NotReady'', ''Ready'', ''Ready'']))
   \<and> Check (statusOf [''Ready'', ''NotReady'', ''Ready''])
       = Check (statusOf [''NotReady'', ''Ready'', ''Ready''])
   \<and> Check (statusOf [''Ready'', ''Unknown''])
       = Check (statusOf [''NotReady'', ''Ready'', ''Ready''])"
  using Check_order_independent
      [of "statusOf [''Ready'', ''NotReady'', ''Ready'']" "statusOf [''NotReady'', ''Ready'', ''Ready'']"]
    Check_order_independent
      [of "statusOf [''Ready'', ''Unknown'']" "statusOf [''NotReady'', ''Ready'', ''Ready'']"]
  by (simp add: statusOf_def EtcdMemberStatusReady_def)

section \<open>Feature gates\<close>

lemma Add_fresh:
  "\<not> closed f \<Longrightarrow> known f name = None \<Longrightarrow>
   Add f [(name, spec)] = Inr (f\<lparr>known := (known f)(name \<mapsto> spec)\<rparr>)"
  by (simp add: Add_def)

text \<open>
  C10. The registry holds exactly one gate, \<open>BackupCompaction\<close>, disabled by default and
  of stage alpha. \<open>RegisterFeatureGates\<close> on an open gate that does not know the name yet
  (the fresh shared gate is one) returns the gate with exactly this entry added: every
  other name is known as before, and the gate stays open.
\<close>

theorem RegisterFeatureGates_adds_BackupCompaction:
  "featureGates =
     [(''BackupCompaction'', \<lparr>Default = False, LockToDefault = False, PreRelease = Alpha\<rparr>)]
   \<and> (\<not> closed f \<and> known f ''BackupCompaction'' = None \<longrightarrow>
        RegisterFeatureGates f =
          Inr (f\<lparr>known := (known f)(''BackupCompaction'' \<mapsto>
                 \<lparr>Default = False, LockToDefault = False, PreRelease = Alpha\<rparr>)\<rparr>))
   \<and> (\<exists>f'. RegisterFeatureGates NewFeatureGate = Inr f'
          \<and> dom (known f') = insert ''BackupCompaction'' (dom (known NewFeatureGate))
          \<and> known f' ''BackupCompaction''
              = Some \<lparr>Default = False, LockToDefault = False, PreRelease = Alpha\<rparr>
          \<and> (\<forall>name. name \<noteq> ''BackupCompaction'' \<longrightarrow> known f' name = known NewFeatureGate name)
          \<and> closed f' = closed NewFeatureGate)"
proof (intro conjI impI)
  show "featureGates =
     [(''BackupCompaction'', \<lparr>Default = False, LockToDefault = False, PreRelease = Alpha\<rparr>)]"
    by (simp add: featureGates_def BackupCompaction_def)
next
  assume "\<not> closed f \<and> known f ''BackupCompaction'' = None"
  then show "RegisterFeatureGates f =
          Inr (f\<lparr>known := (known f)(''BackupCompaction'' \<mapsto>
                 \<lparr>Default = False, LockToDefault = False, PreRelease = Alpha\<rparr>)\<rparr>)"
    by (simp add: RegisterFeatureGates_def featureGates_def BackupCompaction_def Add_fresh)
next
  have n: "\<not> closed NewFeatureGate" "known NewFeatureGate ''BackupCompaction'' = None"
    by (simp_all add: NewFeatureGate_def)
  have "RegisterFeatureGates NewFeatureGate =
          Inr (NewFeatureGate\<lparr>known := (known NewFeatureGate)(''BackupCompaction'' \<mapsto>
                 \<lparr>Default = False, LockToDefault = False, PreRelease = Alpha\<rparr>)\<rparr>)"
    using n by (simp add: RegisterFeatureGates_def featureGates_def BackupCompaction_def Add_fresh)
  then show "\<exists>f'. RegisterFeatureGates NewFeatureGate = Inr f'
          \<and> dom (known f') = insert ''BackupCompaction'' (dom (known NewFeatureGate))
          \<and> known f' ''BackupCompaction''
              = Some \<lparr>Default = False, LockToDefault = False, PreRelease = Alpha\<rparr>
          \<and> (\<forall>name. name \<noteq> ''BackupCompaction'' \<longrightarrow> known f' name = known NewFeatureGate name)
          \<and> closed f' = closed NewFeatureGate"
    by simp
qed

theorem RegisterFeatureGates_adds_BackupCompaction_witness:
  "\<not> closed NewFeatureGate \<and> known NewFeatureGate ''BackupCompaction'' = None
   \<and> (\<exists>f'. RegisterFeatureGates NewFeatureGate = Inr f'
          \<and> known f' ''BackupCompaction''
              = Some \<lparr>Default = False, LockToDefault = False, PreRelease = Alpha\<rparr>
          \<and> known f' ''AllAlpha'' = known NewFeatureGate ''AllAlpha''
          \<and> known f' ''MyFeature'' = None)"
  using RegisterFeatureGates_adds_BackupCompaction [of NewFeatureGate]
  by (auto simp add: NewFeatureGate_def)

section \<open>Trimming a comma-terminated list\<close>

lemma HasPrefix_single: "HasPrefix s [c] \<longleftrightarrow> s \<noteq> [] \<and> hd s = c"
  by (cases s) (simp_all add: HasPrefix_def)

lemma HasSuffix_single: "HasSuffix s [c] \<longleftrightarrow> s \<noteq> [] \<and> last s = c"
proof (cases s rule: rev_cases)
  case Nil
  then show ?thesis by (simp add: HasSuffix_def)
next
  case (snoc ys y)
  then show ?thesis by (simp add: HasSuffix_def)
qed

lemma Trim_Nil: "Trim [] cutset = []"
  by (simp add: Trim_def)

lemma Trim_terminated:
  assumes "x \<noteq> []" and "hd x \<noteq> c" and "last x \<noteq> c"
  shows "Trim (x @ [c]) [c] = x"
proof -
  have l: "dropWhile (\<lambda>d. d = c) (x @ [c]) = x @ [c]"
    using assms by (cases x) simp_all
  have r: "dropWhile (\<lambda>d. d = c) (rev x) = rev x"
    using assms by (cases x rule: rev_cases) simp_all
  show ?thesis
    by (simp add: Trim_def l r)
qed

lemma concat_terminated:
  "ps \<noteq> [] \<Longrightarrow> concat (map (\<lambda>p. p @ sep) ps) = Join ps sep @ sep"
  by (induction ps sep rule: Join.induct) simp_all

lemma hd_Join: "ps \<noteq> [] \<Longrightarrow> hd ps \<noteq> [] \<Longrightarrow> hd (Join ps sep) = hd (hd ps)"
  by (induction ps sep rule: Join.induct) simp_all

lemma Join_not_Nil: "ps \<noteq> [] \<Longrightarrow> last ps \<noteq> [] \<Longrightarrow> Join ps sep \<noteq> []"
  by (induction ps sep rule: Join.induct) simp_all

lemma last_Join: "ps \<noteq> [] \<Longrightarrow> last ps \<noteq> [] \<Longrightarrow> last (Join ps sep) = last (last ps)"
  by (induction ps sep rule: Join.induct) (simp_all add: Join_not_Nil)

lemma Trim_Join:
  assumes "ps \<noteq> []" and "hd ps \<noteq> []" and "last ps \<noteq> []"
    and "\<not> HasPrefix (hd ps) [c]" and "\<not> HasSuffix (last ps) [c]"
  shows "Trim (concat (map (\<lambda>p. p @ [c]) ps)) [c] = Join ps [c]"
proof -
  have "Join ps [c] \<noteq> []"
    using assms by (simp add: Join_not_Nil)
  moreover have "hd (Join ps [c]) \<noteq> c"
    using assms by (simp add: hd_Join HasPrefix_single)
  moreover have "last (Join ps [c]) \<noteq> c"
    using assms by (simp add: last_Join HasSuffix_single)
  ultimately show ?thesis
    using assms(1) by (simp add: concat_terminated Trim_terminated)
qed

section \<open>The loops of the builder as list functions\<close>

lemma writeURLs_concat:
  "writeURLs name urls builder = builder @ concat (map (\<lambda>url. (name @ ''='' @ url) @ '','') urls)"
  by (induction urls arbitrary: builder) simp_all

lemma writeMembers_concat:
  "writeMembers members builder = builder @ concat (map (\<lambda>p. p @ '','') (flattenPairs members))"
proof (induction members arbitrary: builder)
  case Nil
  then show ?case by (simp add: flattenPairs_def)
next
  case (Cons member members)
  have "flattenPairs (member # members)
      = map (\<lambda>url. member_Name member @ ''='' @ url) (URLs member) @ flattenPairs members"
    by (simp add: flattenPairs_def)
  then show ?case
    by (simp add: Cons.IH writeURLs_concat map_concat comp_def del: append_assoc)
qed

lemma flattenPairs_not_Nil: "p \<in> set (flattenPairs members) \<Longrightarrow> p \<noteq> []"
  by (auto simp add: flattenPairs_def)

lemma writeOrdinals_concat:
  "writeOrdinals ext etcd peerScheme domainName serverPort n i builder
     = builder
         @ concat (map (\<lambda>k. (GetOrdinalPodName ext (ObjectMeta etcd) k @ ''='' @ peerScheme @ ''://''
                               @ GetOrdinalPodName ext (ObjectMeta etcd) k @ ''.'' @ domainName
                               @ '':'' @ serverPort) @ '','')
                     [i..n - 1])"
proof (induction "nat (n - i)" arbitrary: i builder)
  case 0
  then have "\<not> i < n" by simp
  then show ?case
    by (simp add: writeOrdinals.simps [of _ _ _ _ _ n i])
next
  case (Suc d)
  then have lt: "i < n" and d: "d = nat (n - (i + 1))" by simp_all
  have u: "[i..n - 1] = i # [i + 1..n - 1]"
    using lt by (simp add: upto_rec1)
  show ?case
    using lt
    by (simp add: writeOrdinals.simps [of _ _ _ _ _ n i] Let_def Suc.hyps(1) [OF d] u)
qed

lemma digitChar_not_comma: "digitChar d \<noteq> CHR '',''"
proof -
  have "''0123456789'' ! (d mod 10) \<in> set ''0123456789''"
    by (rule nth_mem) simp
  then show ?thesis
    by (auto simp add: digitChar_def)
qed

lemma formatUint_last: "formatUint n \<noteq> [] \<and> last (formatUint n) = digitChar n"
  by (simp add: formatUint.simps [of n] digitChar_def)

lemma Itoa_last: "Itoa i \<noteq> [] \<and> last (Itoa i) \<noteq> CHR '',''"
  using formatUint_last [of "nat i"] formatUint_last [of "nat (- i)"]
  by (simp add: Itoa_def digitChar_not_comma)

section \<open>The generated initial cluster\<close>

lemma prepareInitialCluster_generated_Trim:
  assumes "spec_InitialCluster (Etcd (Spec etcd)) = None"
  shows "prepareInitialCluster ext etcd peerScheme =
           Trim (concat (map (\<lambda>k. ordinalEntry ext etcd peerScheme k @ '','')
                           [0..sint (Replicas (Spec etcd)) - 1])) '',''"
  using assms by (simp add: prepareInitialCluster_def Let_def writeOrdinals_concat ordinalEntry_def)

lemma ordinalEntry_ends: "ordinalEntry ext etcd peerScheme i \<noteq> [] \<and> \<not> HasSuffix (ordinalEntry ext etcd peerScheme i) '',''"
  using Itoa_last [of "sint (TypeDeref (ServerPort (Etcd (Spec etcd))) (DefaultPortEtcdPeer ext))"]
  by (simp add: ordinalEntry_def HasSuffix_single)

lemma ordinalEntry_last:
  "ordinalEntry ext etcd peerScheme i \<noteq> []"
  "last (ordinalEntry ext etcd peerScheme i) \<noteq> CHR '',''"
  using ordinalEntry_ends [of ext etcd peerScheme i] by (auto simp add: HasSuffix_single)

lemma ordinalEntry_begins:
  "\<not> HasPrefix (GetOrdinalPodName ext (ObjectMeta etcd) i) '','' \<Longrightarrow>
   \<not> HasPrefix (ordinalEntry ext etcd peerScheme i) '',''"
  by (cases "GetOrdinalPodName ext (ObjectMeta etcd) i") (simp_all add: ordinalEntry_def HasPrefix_single)

lemma prepareInitialCluster_generated_Join:
  assumes none: "spec_InitialCluster (Etcd (Spec etcd)) = None"
    and pod: "\<not> HasPrefix (GetOrdinalPodName ext (ObjectMeta etcd) 0) '',''"
  shows "prepareInitialCluster ext etcd peerScheme =
           Join (map (ordinalEntry ext etcd peerScheme) [0..sint (Replicas (Spec etcd)) - 1]) '',''"
proof (cases "0 < sint (Replicas (Spec etcd))")
  case False
  then have "[0..sint (Replicas (Spec etcd)) - 1] = []" by simp
  then show ?thesis
    by (simp add: prepareInitialCluster_generated_Trim [OF none] Trim_Nil)
next
  case True
  define es where "es = map (ordinalEntry ext etcd peerScheme) [0..sint (Replicas (Spec etcd)) - 1]"
  have ne: "[0..sint (Replicas (Spec etcd)) - 1] \<noteq> []"
    using True by simp
  then have e: "es \<noteq> []" by (simp add: es_def)
  have h: "hd es = ordinalEntry ext etcd peerScheme 0"
    using True by (simp add: es_def upto_rec1 [of 0])
  have l: "last es = ordinalEntry ext etcd peerScheme (sint (Replicas (Spec etcd)) - 1)"
    using True ne by (simp add: es_def last_map upto_rec2 [of 0])
  have "Trim (concat (map (\<lambda>p. p @ '','') es)) '','' = Join es '',''"
    using e ordinalEntry_ends [of ext etcd peerScheme] ordinalEntry_begins [OF pod, of peerScheme]
    by (intro Trim_Join) (simp_all add: h l)
  then show ?thesis
    by (simp add: prepareInitialCluster_generated_Trim [OF none] es_def comp_def)
qed

text \<open>
  C9. Without an initial-cluster override and with a replica count of zero or less (as a
  signed 32-bit value) the generated initial cluster is the empty string: the loop over
  the ordinals does not run, \<open>prepareInitialCluster\<close> returns, and a synthesized
  configuration (there is one whenever the UID has six bytes) carries the empty string.
\<close>

theorem prepareInitialCluster_no_replicas:
  assumes "spec_InitialCluster (Etcd (Spec etcd)) = None"
    and "sint (Replicas (Spec etcd)) \<le> 0"
  shows "prepareInitialCluster ext etcd peerScheme = []
    \<and> (\<forall>cfg. createEtcdConfig ext etcd = Inr cfg \<longrightarrow> InitialCluster cfg = [])
    \<and> (6 \<le> length (UID (ObjectMeta etcd)) \<longrightarrow>
         (\<exists>cfg. createEtcdConfig ext etcd = Inr cfg \<and> InitialCluster cfg = []))"
proof -
  from assms(2) have "[0..sint (Replicas (Spec etcd)) - 1] = []" by simp
  then have e: "\<And>sch. prepareInitialCluster ext etcd sch = []"
    by (simp add: prepareInitialCluster_generated_Trim [OF assms(1)] Trim_Nil)
  then have c: "\<And>cfg. createEtcdConfig ext etcd = Inr cfg \<Longrightarrow> InitialCluster cfg = []"
    by (simp add: createEtcdConfig_InitialCluster)
  show ?thesis
    using e c createEtcdConfig_returns [of etcd ext] by blast
qed

theorem prepareInitialCluster_no_replicas_witness:
  "spec_InitialCluster (Etcd (Spec (replicasEtcd (- 1)))) = None
   \<and> sint (Replicas (Spec (replicasEtcd (- 1)))) = - 1
   \<and> prepareInitialCluster exampleExternals (replicasEtcd (- 1)) ''http'' = []
   \<and> sint (Replicas (Spec (replicasEtcd 0))) = 0
   \<and> (\<exists>cfg. createEtcdConfig exampleExternals (replicasEtcd 0) = Inr cfg \<and> InitialCluster cfg = [])"
proof -
  have a: "spec_InitialCluster (Etcd (Spec (replicasEtcd (- 1)))) = None"
    "spec_InitialCluster (Etcd (Spec (replicasEtcd 0))) = None"
    by (simp_all add: replicasEtcd_def exampleEtcd_def)
  have b: "sint (Replicas (Spec (replicasEtcd (- 1)))) = - 1" "sint (Replicas (Spec (replicasEtcd 0))) = 0"
    by (simp_all add: replicasEtcd_def)
  have u: "6 \<le> length (UID (ObjectMeta (replicasEtcd 0)))"
    by (simp add: replicasEtcd_def exampleEtcd_def)
  show ?thesis
    using prepareInitialCluster_no_replicas [of "replicasEtcd (- 1)" exampleExternals "''http''"]
      prepareInitialCluster_no_replicas [of "replicasEtcd 0" exampleExternals "''http''"]
      a b u
    by simp
qed

text \<open>
  C5, amended. Without an initial-cluster override, and when the pod name of ordinal 0
  does not begin with a comma, the generated initial cluster is the comma-join of the
  entries \<open><podName>=<peerScheme>://<podName>.<peerService>.<namespace>.svc:<serverPort>\<close>
  of the ordinals \<open>0, ..., replicas - 1\<close> in ascending order, and it does not end with a
  comma; for three replicas these are the entries of the ordinals 0, 1 and 2. A
  synthesized configuration carries this list, for the scheme of the peer TLS setting.
\<close>

theorem initial_cluster_in_ordinal_order:
  assumes "spec_InitialCluster (Etcd (Spec etcd)) = None"
    and "\<not> HasPrefix (GetOrdinalPodName ext (ObjectMeta etcd) 0) '',''"
  shows "prepareInitialCluster ext etcd peerScheme =
           Join (map (ordinalEntry ext etcd peerScheme) [0..sint (Replicas (Spec etcd)) - 1]) '',''
    \<and> \<not> HasSuffix (prepareInitialCluster ext etcd peerScheme) '',''
    \<and> (sint (Replicas (Spec etcd)) = 3 \<longrightarrow>
         prepareInitialCluster ext etcd peerScheme =
           ordinalEntry ext etcd peerScheme 0 @ '','' @ ordinalEntry ext etcd peerScheme 1 @ '',''
             @ ordinalEntry ext etcd peerScheme 2)
    \<and> (\<forall>cfg. createEtcdConfig ext etcd = Inr cfg \<longrightarrow>
         InitialCluster cfg =
           Join (map (ordinalEntry ext etcd
                        (if PeerUrlTLS (Etcd (Spec etcd)) = None then ''http'' else ''https''))
                   [0..sint (Replicas (Spec etcd)) - 1]) '','')"
proof -
  have j: "\<And>sch. prepareInitialCluster ext etcd sch =
           Join (map (ordinalEntry ext etcd sch) [0..sint (Replicas (Spec etcd)) - 1]) '',''"
    by (rule prepareInitialCluster_generated_Join [OF assms])
  have t: "\<not> HasSuffix (prepareInitialCluster ext etcd peerScheme) '',''"
  proof (cases "0 < sint (Replicas (Spec etcd))")
    case False
    then have "[0..sint (Replicas (Spec etcd)) - 1] = []" by simp
    then show ?thesis by (simp add: j HasSuffix_single)
  next
    case True
    then have ne: "[0..sint (Replicas (Spec etcd)) - 1] \<noteq> []" by simp
    then show ?thesis
      by (simp add: j HasSuffix_single last_Join Join_not_Nil last_map ordinalEntry_last)
  qed
  have three: "sint (Replicas (Spec etcd)) = 3 \<longrightarrow>
         prepareInitialCluster ext etcd peerScheme =
           ordinalEntry ext etcd peerScheme 0 @ '','' @ ordinalEntry ext etcd peerScheme 1 @ '',''
             @ ordinalEntry ext etcd peerScheme 2"
    by (simp add: j upto_rec1 [of 0] upto_rec1 [of 1])
  have s: "fst (getSchemeAndSecurityConfig (PeerUrlTLS (Etcd (Spec etcd)))
             (VolumeMountPathEtcdPeerCA ext) (VolumeMountPathEtcdPeerServerTLS ext))
         = (if PeerUrlTLS (Etcd (Spec etcd)) = None then ''http'' else ''https'')"
    by (simp add: getSchemeAndSecurityConfig_def split: option.splits)
  have c: "\<forall>cfg. createEtcdConfig ext etcd = Inr cfg \<longrightarrow>
         InitialCluster cfg =
           Join (map (ordinalEntry ext etcd
                        (if PeerUrlTLS (Etcd (Spec etcd)) = None then ''http'' else ''https''))
                   [0..sint (Replicas (Spec etcd)) - 1]) '',''"
    using createEtcdConfig_InitialCluster [of ext etcd] by (simp only: s j) simp
  show ?thesis
    using j t three c by blast
qed

theorem initial_cluster_in_ordinal_order_witness:
  "spec_InitialCluster (Etcd (Spec exampleEtcd)) = None
   \<and> \<not> HasPrefix (GetOrdinalPodName exampleExternals (ObjectMeta exampleEtcd) 0) '',''
   \<and> sint (Replicas (Spec exampleEtcd)) = 3
   \<and> prepareInitialCluster exampleExternals exampleEtcd ''http''
       = ''etcd-main-0=http://etcd-main-0.etcd-main-peer.shoot--foo.svc:2380,etcd-main-1=http://etcd-main-1.etcd-main-peer.shoot--foo.svc:2380,etcd-main-2=http://etcd-main-2.etcd-main-peer.shoot--foo.svc:2380''"
proof -
  have a: "spec_InitialCluster (Etcd (Spec exampleEtcd)) = None"
    and r: "sint (Replicas (Spec exampleEtcd)) = 3"
    by (simp_all add: exampleEtcd_def)
  have p: "\<And>i. GetOrdinalPodName exampleExternals (ObjectMeta exampleEtcd) i = ''etcd-main-'' @ Itoa i"
    by (simp add: exampleExternals_def exampleEtcd_def)
  have i: "Itoa 0 = ''0''" "Itoa 1 = ''1''" "Itoa 2 = ''2''"
    by (simp_all add: Itoa_def formatUint.simps digitChar_def)
  have h: "\<not> HasPrefix (GetOrdinalPodName exampleExternals (ObjectMeta exampleEtcd) 0) '',''"
    by (simp add: p HasPrefix_def)
  have e: "\<And>k. ordinalEntry exampleExternals exampleEtcd ''http'' k
      = ''etcd-main-'' @ Itoa k @ ''=http://etcd-main-'' @ Itoa k @ ''.etcd-main-peer.shoot--foo.svc:2380''"
    by (simp add: ordinalEntry_def p Itoa_2380 TypeDeref_def)
      (simp add: exampleExternals_def exampleEtcd_def Itoa_2380)
  have u: "[0..2::int] = [0, 1, 2]"
    by (simp add: upto_rec1 [of 0] upto_rec1 [of 1])
  show ?thesis
    using initial_cluster_in_ordinal_order [OF a h, of "''http''"] a h r
    by (simp add: e i u)
qed

text \<open>
  The claim C5 as stated fails for a resource named \<open>,e\<close> with three replicas: the pods
  are \<open>,e-0\<close>, \<open>,e-1\<close> and \<open>,e-2\<close>, and \<open>strings.Trim\<close> removes the leading comma of the
  first entry together with the trailing one of the last.
\<close>

theorem initial_cluster_in_ordinal_order_counterexample:
  "spec_InitialCluster (Etcd (Spec commaEtcd)) = None
   \<and> sint (Replicas (Spec commaEtcd)) = 3
   \<and> GetOrdinalPodName exampleExternals (ObjectMeta commaEtcd) 0 = '',e-0''
   \<and> prepareInitialCluster exampleExternals commaEtcd ''http''
       = ''e-0=http://,e-0.,e-peer.shoot--foo.svc:2380,,e-1=http://,e-1.,e-peer.shoot--foo.svc:2380,,e-2=http://,e-2.,e-peer.shoot--foo.svc:2380''
   \<and> prepareInitialCluster exampleExternals commaEtcd ''http''
       \<noteq> Join (map (ordinalEntry exampleExternals commaEtcd ''http'') [0..2]) '',''"
proof -
  have a: "spec_InitialCluster (Etcd (Spec commaEtcd)) = None"
    and r: "sint (Replicas (Spec commaEtcd)) = 3"
    by (simp_all add: commaEtcd_def exampleEtcd_def)
  have p: "\<And>i. GetOrdinalPodName exampleExternals (ObjectMeta commaEtcd) i = '',e-'' @ Itoa i"
    by (simp add: exampleExternals_def commaEtcd_def)
  have i: "Itoa 0 = ''0''" "Itoa 1 = ''1''" "Itoa 2 = ''2''"
    by (simp_all add: Itoa_def formatUint.simps digitChar_def)
  have e: "\<And>k. ordinalEntry exampleExternals commaEtcd ''http'' k
      = '',e-'' @ Itoa k @ ''=http://,e-'' @ Itoa k @ ''.,e-peer.shoot--foo.svc:2380''"
    by (simp add: ordinalEntry_def p TypeDeref_def)
      (simp add: exampleExternals_def commaEtcd_def exampleEtcd_def Itoa_2380)
  have u: "[0..2::int] = [0, 1, 2]"
    by (simp add: upto_rec1 [of 0] upto_rec1 [of 1])
  have t: "prepareInitialCluster exampleExternals commaEtcd ''http''
       = ''e-0=http://,e-0.,e-peer.shoot--foo.svc:2380,,e-1=http://,e-1.,e-peer.shoot--foo.svc:2380,,e-2=http://,e-2.,e-peer.shoot--foo.svc:2380''"
    by (simp add: prepareInitialCluster_generated_Trim [OF a] r u e i Trim_def)
  show ?thesis
    by (simp add: a r p i t u e)
qed

section \<open>Member-URL overrides\<close>

lemma override_Trim:
  "Trim (writeMembers members []) '','' =
     Trim (concat (map (\<lambda>p. p @ '','') (flattenPairs members))) '',''"
  by (simp add: writeMembers_concat)

lemma override_Join:
  assumes "commaSafe (flattenPairs members)"
  shows "Trim (writeMembers members []) '','' = Join (flattenPairs members) '',''"
proof (cases "flattenPairs members = []")
  case True
  then show ?thesis by (simp add: override_Trim Trim_Nil)
next
  case False
  then have "hd (flattenPairs members) \<in> set (flattenPairs members)"
    and "last (flattenPairs members) \<in> set (flattenPairs members)"
    by simp_all
  then have "hd (flattenPairs members) \<noteq> []" and "last (flattenPairs members) \<noteq> []"
    by (simp_all add: flattenPairs_not_Nil)
  moreover have "\<not> HasPrefix (hd (flattenPairs members)) '',''"
    and "\<not> HasSuffix (last (flattenPairs members)) '',''"
    using assms False by (simp_all add: commaSafe_def)
  ultimately have "Trim (concat (map (\<lambda>p. p @ '','') (flattenPairs members))) '',''
      = Join (flattenPairs members) '',''"
    using False by (intro Trim_Join)
  then show ?thesis by (simp add: override_Trim)
qed

lemma prepareInitialCluster_override:
  "spec_InitialCluster (Etcd (Spec etcd)) = Some members \<Longrightarrow>
   prepareInitialCluster ext etcd peerScheme = Trim (writeMembers members []) '',''"
  by (simp add: prepareInitialCluster_def)

lemma preparePeerURLs_override:
  "PeerURLs (Etcd (Spec etcd)) = Some members \<Longrightarrow>
   preparePeerURLs ext etcd peerScheme peerSvcName = Trim (writeMembers members []) '',''"
  by (simp add: preparePeerURLs_def)

lemma prepareClientURLs_override:
  "ClientURLs (Etcd (Spec etcd)) = Some members \<Longrightarrow>
   prepareClientURLs ext etcd clientScheme peerSvcName = Trim (writeMembers members []) '',''"
  by (simp add: prepareClientURLs_def)

text \<open>The advertised URLs of a synthesized configuration are those of the two functions.\<close>

lemma createEtcdConfig_AdvertisePeerUrls:
  "createEtcdConfig ext etcd = Inr cfg \<Longrightarrow>
   AdvertisePeerUrls cfg =
     preparePeerURLs ext etcd
       (fst (getSchemeAndSecurityConfig (PeerUrlTLS (Etcd (Spec etcd)))
          (VolumeMountPathEtcdPeerCA ext) (VolumeMountPathEtcdPeerServerTLS ext)))
       (GetPeerServiceName ext (ObjectMeta etcd))"
  by (auto simp add: createEtcdConfig_def Let_def split: prod.splits sum.splits option.splits)

lemma createEtcdConfig_AdvertiseClientUrls:
  "createEtcdConfig ext etcd = Inr cfg \<Longrightarrow>
   AdvertiseClientUrls cfg =
     prepareClientURLs ext etcd
       (fst (getSchemeAndSecurityConfig (ClientUrlTLS (Etcd (Spec etcd)))
          (VolumeMountPathEtcdCA ext) (VolumeMountPathEtcdServerTLS ext)))
       (GetPeerServiceName ext (ObjectMeta etcd))"
  by (auto simp add: createEtcdConfig_def Let_def split: prod.splits sum.splits option.splits)

text \<open>
  C6, amended. An explicit override list decides the output, whatever the replica count:
  the initial cluster, the advertised peer URLs and the advertised client URLs are the
  comma-terminated \<open>name=url\<close> pairs of the list, in input order, with every leading and
  trailing comma trimmed; when the first pair does not begin and the last pair does not
  end with a comma (or there is no pair) this is exactly the comma-join of the pairs.
  Without a peer or client override the advertised URL is the single token
  \<open><scheme>@<peerServiceName>@<namespace>@<port>\<close>.
\<close>

theorem override_precedence:
  "(\<forall>members. spec_InitialCluster (Etcd (Spec etcd)) = Some members \<longrightarrow>
      prepareInitialCluster ext etcd scheme
        = Trim (concat (map (\<lambda>p. p @ '','') (flattenPairs members))) '',''
      \<and> (commaSafe (flattenPairs members) \<longrightarrow>
           prepareInitialCluster ext etcd scheme = Join (flattenPairs members) '','')
      \<and> (\<forall>r. prepareInitialCluster ext (etcd\<lparr>Spec := (Spec etcd)\<lparr>Replicas := r\<rparr>\<rparr>) scheme
             = prepareInitialCluster ext etcd scheme))
   \<and> (\<forall>members. PeerURLs (Etcd (Spec etcd)) = Some members \<longrightarrow>
        preparePeerURLs ext etcd scheme peerSvcName
          = Trim (concat (map (\<lambda>p. p @ '','') (flattenPairs members))) '',''
        \<and> (commaSafe (flattenPairs members) \<longrightarrow>
             preparePeerURLs ext etcd scheme peerSvcName = Join (flattenPairs members) '','')
        \<and> (\<forall>r. preparePeerURLs ext (etcd\<lparr>Spec := (Spec etcd)\<lparr>Replicas := r\<rparr>\<rparr>) scheme peerSvcName
               = preparePeerURLs ext etcd scheme peerSvcName))
   \<and> (\<forall>members. ClientURLs (Etcd (Spec etcd)) = Some members \<longrightarrow>
        prepareClientURLs ext etcd scheme peerSvcName
          = Trim (concat (map (\<lambda>p. p @ '','') (flattenPairs members))) '',''
        \<and> (commaSafe (flattenPairs members) \<longrightarrow>
             prepareClientURLs ext etcd scheme peerSvcName = Join (flattenPairs members) '','')
        \<and> (\<forall>r. prepareClientURLs ext (etcd\<lparr>Spec := (Spec etcd)\<lparr>Replicas := r\<rparr>\<rparr>) scheme peerSvcName
               = prepareClientURLs ext etcd scheme peerSvcName))
   \<and> (PeerURLs (Etcd (Spec etcd)) = None \<longrightarrow>
        preparePeerURLs ext etcd scheme peerSvcName
          = scheme @ ''@'' @ peerSvcName @ ''@'' @ Namespace (ObjectMeta etcd) @ ''@''
              @ Itoa (sint (case ServerPort (Etcd (Spec etcd)) of
                              Some p \<Rightarrow> p | None \<Rightarrow> DefaultPortEtcdPeer ext)))
   \<and> (ClientURLs (Etcd (Spec etcd)) = None \<longrightarrow>
        prepareClientURLs ext etcd scheme peerSvcName
          = scheme @ ''@'' @ peerSvcName @ ''@'' @ Namespace (ObjectMeta etcd) @ ''@''
              @ Itoa (sint (case ClientPort (Etcd (Spec etcd)) of
                              Some p \<Rightarrow> p | None \<Rightarrow> DefaultPortEtcdClient ext)))"
proof (intro conjI allI impI)
  fix members
  assume i: "spec_InitialCluster (Etcd (Spec etcd)) = Some members"
  show "prepareInitialCluster ext etcd scheme
        = Trim (concat (map (\<lambda>p. p @ '','') (flattenPairs members))) '',''"
    by (simp only: prepareInitialCluster_override [OF i] override_Trim)
  show "prepareInitialCluster ext etcd scheme = Join (flattenPairs members) '',''"
    if "commaSafe (flattenPairs members)"
    by (simp only: prepareInitialCluster_override [OF i] override_Join [OF that])
  show "prepareInitialCluster ext (etcd\<lparr>Spec := (Spec etcd)\<lparr>Replicas := r\<rparr>\<rparr>) scheme
             = prepareInitialCluster ext etcd scheme" for r
    using i by (simp add: prepareInitialCluster_def)
next
  fix members
  assume p: "PeerURLs (Etcd (Spec etcd)) = Some members"
  show "preparePeerURLs ext etcd scheme peerSvcName
          = Trim (concat (map (\<lambda>p. p @ '','') (flattenPairs members))) '',''"
    by (simp only: preparePeerURLs_override [OF p] override_Trim)
  show "preparePeerURLs ext etcd scheme peerSvcName = Join (flattenPairs members) '',''"
    if "commaSafe (flattenPairs members)"
    by (simp only: preparePeerURLs_override [OF p] override_Join [OF that])
  show "preparePeerURLs ext (etcd\<lparr>Spec := (Spec etcd)\<lparr>Replicas := r\<rparr>\<rparr>) scheme peerSvcName
               = preparePeerURLs ext etcd scheme peerSvcName" for r
    using p by (simp add: preparePeerURLs_def)
next
  fix members
  assume c: "ClientURLs (Etcd (Spec etcd)) = Some members"
  show "prepareClientURLs ext etcd scheme peerSvcName
          = Trim (concat (map (\<lambda>p. p @ '','') (flattenPairs members))) '',''"
    by (simp only: prepareClientURLs_override [OF c] override_Trim)
  show "prepareClientURLs ext etcd scheme peerSvcName = Join (flattenPairs members) '',''"
    if "commaSafe (flattenPairs members)"
    by (simp only: prepareClientURLs_override [OF c] override_Join [OF that])
  show "prepareClientURLs ext (etcd\<lparr>Spec := (Spec etcd)\<lparr>Replicas := r\<rparr>\<rparr>) scheme peerSvcName
               = prepareClientURLs ext etcd scheme peerSvcName" for r
    using c by (simp add: prepareClientURLs_def)
next
  assume "PeerURLs (Etcd (Spec etcd)) = None"
  then show "preparePeerURLs ext etcd scheme peerSvcName
          = scheme @ ''@'' @ peerSvcName @ ''@'' @ Namespace (ObjectMeta etcd) @ ''@''
              @ Itoa (sint (case ServerPort (Etcd (Spec etcd)) of
                              Some p \<Rightarrow> p | None \<Rightarrow> DefaultPortEtcdPeer ext))"
    by (simp add: preparePeerURLs_def TypeDeref_def)
next
  assume "ClientURLs (Etcd (Spec etcd)) = None"
  then show "prepareClientURLs ext etcd scheme peerSvcName
          = scheme @ ''@'' @ peerSvcName @ ''@'' @ Namespace (ObjectMeta etcd) @ ''@''
              @ Itoa (sint (case ClientPort (Etcd (Spec etcd)) of
                              Some p \<Rightarrow> p | None \<Rightarrow> DefaultPortEtcdClient ext))"
    by (simp add: prepareClientURLs_def TypeDeref_def)
qed

theorem override_precedence_witness:
  "commaSafe (flattenPairs
      [\<lparr>member_Name = ''etcd-0'', URLs = [''https://etcd-0.local:2380'', ''https://10.0.0.1:2380'']\<rparr>,
       \<lparr>member_Name = ''etcd-1'', URLs = [''https://etcd-1.local:2380'']\<rparr>])
   \<and> sint (Replicas (Spec overrideEtcd)) = 5
   \<and> prepareInitialCluster exampleExternals overrideEtcd ''https''
       = ''etcd-0=https://etcd-0.local:2380,etcd-0=https://10.0.0.1:2380,etcd-1=https://etcd-1.local:2380''
   \<and> preparePeerURLs exampleExternals overrideEtcd ''https'' ''etcd-main-peer''
       = ''etcd-0=https://etcd-0.local:2380''
   \<and> prepareClientURLs exampleExternals overrideEtcd ''https'' ''etcd-main-peer''
       = ''etcd-0=https://etcd-0.local:2379''
   \<and> preparePeerURLs exampleExternals exampleEtcd ''http'' ''etcd-main-peer''
       = ''http@etcd-main-peer@shoot--foo@2380''
   \<and> prepareClientURLs exampleExternals exampleEtcd ''http'' ''etcd-main-peer''
       = ''http@etcd-main-peer@shoot--foo@2379''"
proof -
  have i: "spec_InitialCluster (Etcd (Spec overrideEtcd)) =
      Some [\<lparr>member_Name = ''etcd-0'', URLs = [''https://etcd-0.local:2380'', ''https://10.0.0.1:2380'']\<rparr>,
            \<lparr>member_Name = ''etcd-1'', URLs = [''https://etcd-1.local:2380'']\<rparr>]"
    and p: "PeerURLs (Etcd (Spec overrideEtcd)) =
      Some [\<lparr>member_Name = ''etcd-0'', URLs = [''https://etcd-0.local:2380'']\<rparr>]"
    and c: "ClientURLs (Etcd (Spec overrideEtcd)) =
      Some [\<lparr>member_Name = ''etcd-0'', URLs = [''https://etcd-0.local:2379'']\<rparr>]"
    and r: "sint (Replicas (Spec overrideEtcd)) = 5"
    by (simp_all add: overrideEtcd_def)
  have n: "PeerURLs (Etcd (Spec exampleEtcd)) = None" "ClientURLs (Etcd (Spec exampleEtcd)) = None"
    "ServerPort (Etcd (Spec exampleEtcd)) = None" "ClientPort (Etcd (Spec exampleEtcd)) = None"
    "Namespace (ObjectMeta exampleEtcd) = ''shoot--foo''"
    by (simp_all add: exampleEtcd_def)
  have e: "DefaultPortEtcdPeer exampleExternals = 2380" "DefaultPortEtcdClient exampleExternals = 2379"
    by (simp_all add: exampleExternals_def)
  show ?thesis
    using override_precedence [of overrideEtcd exampleExternals "''https''" "''etcd-main-peer''"]
      override_precedence [of exampleEtcd exampleExternals "''http''" "''etcd-main-peer''"]
    by (simp add: i p c r n e flattenPairs_def commaSafe_def HasPrefix_def HasSuffix_def
        Itoa_2379 Itoa_2380 Trim_def)
qed

text \<open>
  The claim C6 as stated fails where a comma stands at an end of the pairs: for a member
  named \<open>,etcd-0\<close> the output has lost the leading comma of the pair, and for a URL that
  ends with a comma the output has lost that comma together with the terminating one.
\<close>

theorem override_precedence_counterexample:
  "PeerURLs (Etcd (Spec (peerOverrideEtcd
       [\<lparr>member_Name = '',etcd-0'', URLs = [''https://etcd-0.local:2380'']\<rparr>])))
     = Some [\<lparr>member_Name = '',etcd-0'', URLs = [''https://etcd-0.local:2380'']\<rparr>]
   \<and> preparePeerURLs exampleExternals
         (peerOverrideEtcd [\<lparr>member_Name = '',etcd-0'', URLs = [''https://etcd-0.local:2380'']\<rparr>])
         ''https'' ''etcd-main-peer''
       = ''etcd-0=https://etcd-0.local:2380''
   \<and> Join (flattenPairs [\<lparr>member_Name = '',etcd-0'', URLs = [''https://etcd-0.local:2380'']\<rparr>]) '',''
       = '',etcd-0=https://etcd-0.local:2380''
   \<and> preparePeerURLs exampleExternals
         (peerOverrideEtcd [\<lparr>member_Name = ''etcd-0'', URLs = [''https://etcd-0.local:2380,'']\<rparr>])
         ''https'' ''etcd-main-peer''
       = ''etcd-0=https://etcd-0.local:2380''
   \<and> Join (flattenPairs [\<lparr>member_Name = ''etcd-0'', URLs = [''https://etcd-0.local:2380,'']\<rparr>]) '',''
       = ''etcd-0=https://etcd-0.local:2380,''
   \<and> preparePeerURLs exampleExternals
         (peerOverrideEtcd [\<lparr>member_Name = '',etcd-0'', URLs = [''https://etcd-0.local:2380'']\<rparr>])
         ''https'' ''etcd-main-peer''
       \<noteq> Join (flattenPairs [\<lparr>member_Name = '',etcd-0'', URLs = [''https://etcd-0.local:2380'']\<rparr>]) '',''"
  by (simp add: peerOverrideEtcd_def preparePeerURLs_def flattenPairs_def Trim_def)

end
